theory Spec2Isabelle
  imports Complex_Main "HOL-Library.AList"
begin

section \<open>Python values shared by the models\<close>

text \<open>
  The exceptions the modelled code can raise. \<open>ValueError\<close> is what the builtin \<open>max\<close>
  raises on an empty iterable, \<open>IndexError\<close> what a list raises when indexed out of range,
  \<open>KeyError\<close> what a dict raises on a missing key, \<open>TypeError\<close> what an unsupported
  operand pair raises, \<open>AttributeError\<close> what reading a missing attribute raises.
\<close>

datatype error = ValueError | IndexError | KeyError | TypeError | AttributeError

text \<open>
  A Python dict is kept as the list of its items in insertion order, with pairwise distinct
  keys. \<open>dict_of\<close> builds one from a sequence of items the way a dict display, a dict
  comprehension and \<open>dict.update\<close> do: a later item with a key already present replaces
  the value and keeps the key's position.
\<close>

type_synonym ('k, 'v) dict = "('k \<times> 'v) list"

definition dict_of :: "('k \<times> 'v) list \<Rightarrow> ('k, 'v) dict" where
  "dict_of items = fold (\<lambda>(k, v) d. AList.update k v d) items []"

definition dict_keys :: "('k, 'v) dict \<Rightarrow> 'k list" where
  "dict_keys d = map fst d"

definition dict_len :: "('k, 'v) dict \<Rightarrow> nat" where
  "dict_len d = length d"

definition dict_getitem :: "('k, 'v) dict \<Rightarrow> 'k \<Rightarrow> error + 'v" where
  "dict_getitem d k = (case map_of d k of None \<Rightarrow> Inl KeyError | Some v \<Rightarrow> Inr v)"

text \<open>
  Indexing a Python list: a negative index counts from the end, and an index outside
  \<open>-len .. len - 1\<close> raises \<open>IndexError\<close>.
\<close>

definition list_getitem :: "'a list \<Rightarrow> int \<Rightarrow> error + 'a" where
  "list_getitem xs i =
     (if 0 \<le> i \<and> i < int (length xs) then Inr (xs ! nat i)
      else if - int (length xs) \<le> i \<and> i < 0 then Inr (xs ! nat (int (length xs) + i))
      else Inl IndexError)"

section \<open>Numeric primitives (\<open>dnd35e.numbers\<close>)\<close>

text \<open>
  Modelled from the spec: the module \<open>dnd35e/numbers.py\<close> (\<open>ModifierType\<close>, \<open>Modifier\<close>)
  is not among the sources. The spec gives a ModifierType as a named category with
  identity by name, and a Modifier as an integer-valued bonus tagged with a ModifierType;
  a Modifier built with no arguments is the zero bonus; converting a Modifier to an
  integer gives its numeric value (\<open>to_int\<close>); negation flips the sign of the value only;
  two Modifiers add by adding their values. Scaling by an integer, which \<open>Size\<close> uses, is
  taken linear in the value as the spec describes the derived size modifiers. The tag of a
  sum is the left operand's tag when it has one and the right operand's otherwise.
\<close>

datatype ModifierType = ModifierType (name: string)

datatype Modifier = Modifier (to_int: int) (modifier_type: "ModifierType option")

definition Modifier_init :: "int option \<Rightarrow> ModifierType option \<Rightarrow> Modifier" where
  "Modifier_init v t = Modifier (case v of None \<Rightarrow> 0 | Some n \<Rightarrow> n) t"

definition Modifier_neg :: "Modifier \<Rightarrow> Modifier" where
  "Modifier_neg m = Modifier (- to_int m) (modifier_type m)"

definition Modifier_rmul :: "int \<Rightarrow> Modifier \<Rightarrow> Modifier" where
  "Modifier_rmul k m = Modifier (k * to_int m) (modifier_type m)"

definition Modifier_add :: "Modifier \<Rightarrow> Modifier \<Rightarrow> Modifier" where
  "Modifier_add a b =
     Modifier (to_int a + to_int b)
       (case modifier_type a of Some t \<Rightarrow> Some t | None \<Rightarrow> modifier_type b)"

section \<open>Core concept model (\<open>dnd35e.concepts\<close>)\<close>

subsection \<open>Size\<close>

record Size =
  size_name :: string
  size_modifier :: Modifier

definition Size_modifier_type :: ModifierType where
  "Size_modifier_type = ModifierType ''size''"

definition Size_init :: "string \<Rightarrow> int \<Rightarrow> Size" where
  "Size_init n modifier_value =
     \<lparr> size_name = n,
       size_modifier = Modifier_init (Some modifier_value) (Some Size_modifier_type) \<rparr>"

definition attack :: "Size \<Rightarrow> Modifier" where
  "attack s = Modifier_neg (size_modifier s)"

definition armor_class :: "Size \<Rightarrow> Modifier" where
  "armor_class s = Modifier_neg (size_modifier s)"

definition grapple :: "Size \<Rightarrow> Modifier" where
  "grapple s = Modifier_rmul 4 (size_modifier s)"

definition hide :: "Size \<Rightarrow> Modifier" where
  "hide s = Modifier_rmul (- 4) (size_modifier s)"

subsection \<open>AbilityScore\<close>

record AbilityScore =
  score :: int

definition AbilityScore_modifier_type :: ModifierType where
  "AbilityScore_modifier_type = ModifierType ''ability''"

definition AbilityScore_init :: "int option \<Rightarrow> AbilityScore" where
  "AbilityScore_init s = \<lparr> score = (case s of None \<Rightarrow> 10 | Some n \<Rightarrow> n) \<rparr>"

text \<open>Python's \<open>//\<close> on integers rounds toward negative infinity, as \<open>div\<close> on \<open>int\<close> does.\<close>

definition modifier :: "AbilityScore \<Rightarrow> Modifier" where
  "modifier a = Modifier_init (Some ((score a - 10) div 2)) (Some AbilityScore_modifier_type)"

subsection \<open>AbilityType and dynamic attribute values\<close>

datatype AbilityType = AbilityType (ability_type_name: string) (type_abbreviation: "string option")

text \<open>
  \<open>Ability\<close> and \<open>Race\<close> receive arbitrary keyword features and store them with
  \<open>setattr\<close>, and \<open>Race\<close> reads attributes back by name with \<open>getattr\<close>. An instance is
  therefore modelled by its instance dictionary, from attribute names to Python values.
  The base class \<open>core.Aggregator\<close> is not among the sources; it is taken to store and
  read attributes as a plain Python object does, and whatever bookkeeping it performs on
  top of that is not modelled.
\<close>

datatype pyval =
    VNone
  | VInt int
  | VStr string
  | VList "pyval list"
  | VSet "pyval list"
  | VModifier Modifier
  | VAbilityType AbilityType
  | VSize Size
  | VObject "(string \<times> pyval) list"

type_synonym obj = "(string, pyval) dict"

definition setattr :: "string \<Rightarrow> pyval \<Rightarrow> obj \<Rightarrow> obj" where
  "setattr attr v self = AList.update attr v self"

definition getattr :: "obj \<Rightarrow> string \<Rightarrow> error + pyval" where
  "getattr self attr = (case map_of self attr of None \<Rightarrow> Inl AttributeError | Some v \<Rightarrow> Inr v)"

subsection \<open>Ability\<close>

definition default_ability_type :: AbilityType where
  "default_ability_type = AbilityType ''Natural'' None"

text \<open>
  \<open>Ability.__init__(name, ability_type=None, description='', **features)\<close>. The keyword
  features cannot be called \<open>name\<close>, \<open>ability_type\<close> or \<open>description\<close>, which are
  parameters, so every feature is stored in the instance dictionary.
\<close>

definition Ability_init ::
  "string \<Rightarrow> AbilityType option \<Rightarrow> string option \<Rightarrow> (string \<times> pyval) list \<Rightarrow> obj" where
  "Ability_init nm ability_type_arg description features =
     fold (\<lambda>(feature, definition). setattr feature definition) features
       [(''_name'', VStr nm),
        (''_ability_type'',
           VAbilityType (case ability_type_arg of
                           None \<Rightarrow> AbilityType [] None
                         | Some t \<Rightarrow> default_ability_type)),
        (''_description'', VStr (case description of None \<Rightarrow> [] | Some d \<Rightarrow> d)),
        (''_features'', VSet [])]"

definition ability_type :: "obj \<Rightarrow> error + pyval" where
  "ability_type self = getattr self ''_ability_type''"

subsection \<open>Race\<close>

text \<open>
  The binary \<open>+\<close> on attribute values. Two Modifiers add as Modifiers; integers, strings
  and lists add as Python's builtins do; every other pair of operands is an unsupported
  operation (for a Modifier and an unrelated value this is what the spec requires of the
  missing module).
\<close>

fun py_add :: "pyval \<Rightarrow> pyval \<Rightarrow> error + pyval" where
  "py_add (VModifier a) (VModifier b) = Inr (VModifier (Modifier_add a b))"
| "py_add (VInt a) (VInt b) = Inr (VInt (a + b))"
| "py_add (VStr a) (VStr b) = Inr (VStr (a @ b))"
| "py_add (VList a) (VList b) = Inr (VList (a @ b))"
| "py_add _ _ = Inl TypeError"

text \<open>The class attributes of \<open>Race\<close>: the defaults an instance falls back to.\<close>

definition Race_class_attributes :: obj where
  "Race_class_attributes =
     [(''favored_class'', VStr ''Any''),
      (''bonus_languages'', VList (map VStr
         [''Abyssal'', ''Aquan'', ''Auran'', ''Celestial'', ''Common'', ''Draconic'',
          ''Dwarven'', ''Elven'', ''Giant'', ''Gnome'', ''Goblin'', ''Gnoll'', ''Halfling'',
          ''Ignan'', ''Infernal'', ''Orc'', ''Sylvan'', ''Terran'', ''Undercommon'']))]"

text \<open>
  Assigning to \<open>fortitude\<close>, \<open>reflex\<close> or \<open>will\<close> goes through the property setter, which
  stores the value under the private name; any other name is stored as it is.
\<close>

definition Race_setattr :: "string \<Rightarrow> pyval \<Rightarrow> obj \<Rightarrow> obj" where
  "Race_setattr attr v self =
     (if attr = ''fortitude'' then setattr ''_fortitude'' v self
      else if attr = ''reflex'' then setattr ''_reflex'' v self
      else if attr = ''will'' then setattr ''_will'' v self
      else setattr attr v self)"

text \<open>
  Reading an attribute that is neither a property nor a method: the instance dictionary
  first, then the class attributes, else \<open>AttributeError\<close>.
\<close>

definition Race_getattr :: "obj \<Rightarrow> string \<Rightarrow> error + pyval" where
  "Race_getattr self attr =
     (case map_of self attr of
        Some v \<Rightarrow> Inr v
      | None \<Rightarrow> getattr Race_class_attributes attr)"

definition Race_init ::
  "string \<Rightarrow> Size \<Rightarrow> int \<Rightarrow> string list \<Rightarrow> string list option \<Rightarrow> string option
     \<Rightarrow> (string \<times> pyval) list \<Rightarrow> obj" where
  "Race_init nm sz speed languages bonus_languages favored_class features =
     fold (\<lambda>(feature, definition). Race_setattr feature definition) features
       ((case favored_class of
           None \<Rightarrow> id
         | Some c \<Rightarrow> Race_setattr ''favored_class'' (VStr c))
        ((case bonus_languages of
            None \<Rightarrow> id
          | Some ls \<Rightarrow> Race_setattr ''bonus_languages'' (VList (map VStr ls)))
         [(''_name'', VStr nm),
          (''_size'', VSize sz),
          (''_speed'', VInt speed),
          (''_languages'', VList (map VStr languages)),
          (''_fortitude'', VModifier (Modifier_init None None)),
          (''_reflex'', VModifier (Modifier_init None None)),
          (''_will'', VModifier (Modifier_init None None))]))"

text \<open>\<open>try: x = <lookup> except AttributeError: x = Modifier()\<close>.\<close>

definition or_zero_Modifier :: "error + pyval \<Rightarrow> error + pyval" where
  "or_zero_Modifier r =
     (case r of
        Inr v \<Rightarrow> Inr v
      | Inl e \<Rightarrow> if e = AttributeError then Inr (VModifier (Modifier_init None None)) else Inl e)"

definition save_bonus :: "obj \<Rightarrow> string \<Rightarrow> error + pyval" where
  "save_bonus self nm =
     (case or_zero_Modifier (Race_getattr self nm) of
        Inl e \<Rightarrow> Inl e
      | Inr specific \<Rightarrow>
          (case or_zero_Modifier (Race_getattr self ''saving_throws'') of
             Inl e \<Rightarrow> Inl e
           | Inr generic \<Rightarrow> py_add generic specific))"

text \<open>
  The call \<open>self._save_bonus(name)\<close> of the three properties. \<open>_save_bonus\<close> is a plain
  method of the class, so the lookup finds an instance attribute of that name first; only
  a keyword feature called \<open>_save_bonus\<close> can put one there. None of the attribute values
  is callable, so calling such an attribute raises \<open>TypeError\<close>; without it the method
  itself runs.
\<close>

definition call_save_bonus :: "obj \<Rightarrow> string \<Rightarrow> error + pyval" where
  "call_save_bonus self nm =
     (case map_of self ''_save_bonus'' of
        Some shadow \<Rightarrow> Inl TypeError
      | None \<Rightarrow> save_bonus self nm)"

definition fortitude :: "obj \<Rightarrow> error + pyval" where
  "fortitude self = call_save_bonus self ''_fortitude''"

definition reflex :: "obj \<Rightarrow> error + pyval" where
  "reflex self = call_save_bonus self ''_reflex''"

definition will :: "obj \<Rightarrow> error + pyval" where
  "will self = call_save_bonus self ''_will''"

subsection \<open>Progression\<close>

record Progression =
  modifiers :: "Modifier list"

definition Progression_init :: "string \<Rightarrow> int list \<Rightarrow> Progression" where
  "Progression_init modifier_name values =
     \<lparr> modifiers = map (\<lambda>v. Modifier_init (Some v) (Some (ModifierType modifier_name))) values \<rparr>"

definition Progression_len :: "Progression \<Rightarrow> nat" where
  "Progression_len p = length (modifiers p)"

definition Progression_getitem :: "Progression \<Rightarrow> int \<Rightarrow> error + Modifier" where
  "Progression_getitem p item = list_getitem (modifiers p) item"

subsection \<open>ClassFeature\<close>

text \<open>
  \<open>num.ordinal\<close> is not among the sources. \<open>ClassFeature.__init__\<close> applies it to each
  keyword name of the level-to-Ability arguments and \<open>__getitem__\<close> compares the resulting
  keys with the integer level asked for, so it is a parameter taking a keyword name to
  the integer level it denotes.
\<close>

record ClassFeature =
  feature_name :: string
  feature_description :: string
  progression :: "(int, obj) dict"

definition ClassFeature_init ::
  "(string \<Rightarrow> int) \<Rightarrow> string \<Rightarrow> string option \<Rightarrow> (string \<times> obj) list \<Rightarrow> ClassFeature" where
  "ClassFeature_init ordinal nm description prog =
     \<lparr> feature_name = nm,
       feature_description = (case description of None \<Rightarrow> [] | Some d \<Rightarrow> d),
       progression = dict_of (map (\<lambda>(level, ability). (ordinal level, ability)) prog) \<rparr>"

text \<open>The builtin \<open>max\<close> over a sequence: \<open>ValueError\<close> when it is empty.\<close>

definition py_max :: "int list \<Rightarrow> error + int" where
  "py_max xs = (case xs of [] \<Rightarrow> Inl ValueError | y # ys \<Rightarrow> Inr (fold max ys y))"

definition ClassFeature_getitem :: "ClassFeature \<Rightarrow> int \<Rightarrow> error + obj" where
  "ClassFeature_getitem self level =
     (case py_max (filter (\<lambda>lvl. lvl \<le> level) (dict_keys (progression self))) of
        Inl e \<Rightarrow> Inl e
      | Inr lvl \<Rightarrow> dict_getitem (progression self) lvl)"

subsection \<open>Class, ClassLevel, Feat and Character\<close>

text \<open>
  Modelled from the spec: \<open>num.Die\<close> is not among the sources; the spec gives it as an
  opaque die-size descriptor with equality by side count.
\<close>

datatype Die = Die (sides: int)

record Class =
  alignment_restriction :: "string list option"
  hit_die :: Die
  class_skills :: "string list"
  skill_points_per_level :: int
  class_base_attack_bonus :: Progression
  class_fort_save :: Progression
  class_ref_save :: Progression
  class_will_save :: Progression
  class_features :: "ClassFeature list"

record ClassLevel =
  held_class :: Class
  held_level :: int

definition ClassLevel_init :: "Class \<Rightarrow> int \<Rightarrow> ClassLevel" where
  "ClassLevel_init c l = \<lparr> held_class = c, held_level = l \<rparr>"

definition base_attack_bonus :: "ClassLevel \<Rightarrow> error + Modifier" where
  "base_attack_bonus self = Progression_getitem (class_base_attack_bonus (held_class self)) (held_level self)"

definition fort_save :: "ClassLevel \<Rightarrow> error + Modifier" where
  "fort_save self = Progression_getitem (class_fort_save (held_class self)) (held_level self)"

definition ref_save :: "ClassLevel \<Rightarrow> error + Modifier" where
  "ref_save self = Progression_getitem (class_ref_save (held_class self)) (held_level self)"

definition will_save :: "ClassLevel \<Rightarrow> error + Modifier" where
  "will_save self = Progression_getitem (class_will_save (held_class self)) (held_level self)"

record Feat =
  feat_name :: string

text \<open>
  \<open>Class\<close> defines neither \<open>__eq__\<close> nor \<open>__hash__\<close>, so the keys of a Character's classes
  mapping are Class objects compared by identity; a key is the identity of the object.
  \<open>Counter(classes)\<close> copies the items of the mapping, whatever their counts.
\<close>

type_synonym Class_ref = nat

record Character =
  race :: obj
  classes :: "(Class_ref, int) dict"
  feats :: "Feat list"

definition Counter :: "('k \<times> int) list \<Rightarrow> ('k, int) dict" where
  "Counter items = dict_of items"

definition Character_init :: "obj \<Rightarrow> (Class_ref \<times> int) list \<Rightarrow> Feat list \<Rightarrow> Character" where
  "Character_init r cs fs = \<lparr> race = r, classes = Counter (dict_of cs), feats = fs \<rparr>"

definition level :: "Character \<Rightarrow> int" where
  "level self = int (dict_len (classes self))"

section \<open>Legacy reference catalog (\<open>dnd35.srd\<close>)\<close>

text \<open>
  Modelled from the spec: the module \<open>dnd35/concepts.py\<close> that the catalog instantiates
  (the legacy \<open>Size\<close>, \<open>Special\<close>, \<open>Modifier\<close> and \<open>Race\<close>) is not among the sources. The
  spec gives the legacy Size as a bare signed integer magnitude, \<open>Size(modifier_value)\<close>;
  a Special as a name with optional named Modifiers; a Modifier as built from descriptive
  strings and named sub-bonuses; and a Race as
  \<open>Race(name, size, speed, number_of_feats, skill_points_per_level, languages,
  bonus_languages, favored_class, **features)\<close>. Each is a record of its constructor
  arguments; an argument a call leaves out is \<open>None\<close>, and the remaining keyword arguments
  of a Race are kept, in the order written, as its features.
\<close>

record Legacy_Size =
  magnitude :: int

datatype Legacy_Modifier =
  Legacy_Modifier (descriptions: "string list") (subbonuses: "(string \<times> int) list")

datatype Legacy_Special =
  Legacy_Special (special_name: string) (special_modifiers: "(string \<times> Legacy_Modifier) list")

datatype legacy_feature =
    FInt int
  | FStrs "string list"
  | FSpecial Legacy_Special
  | FModifier Legacy_Modifier

record Legacy_Race =
  race_name :: string
  race_size :: Legacy_Size
  race_speed :: int
  race_number_of_feats :: "int option"
  race_skill_points_per_level :: "int option"
  race_languages :: "string list"
  race_bonus_languages :: "string list option"
  race_favored_class :: "string option"
  race_features :: "(string \<times> legacy_feature) list"

subsection \<open>Sizes\<close>

definition fine :: Legacy_Size where "fine = \<lparr> magnitude = 8 \<rparr>"
definition diminutive :: Legacy_Size where "diminutive = \<lparr> magnitude = 4 \<rparr>"
definition tiny :: Legacy_Size where "tiny = \<lparr> magnitude = 2 \<rparr>"
definition small :: Legacy_Size where "small = \<lparr> magnitude = 1 \<rparr>"
definition medium :: Legacy_Size where "medium = \<lparr> magnitude = 0 \<rparr>"
definition large :: Legacy_Size where "large = \<lparr> magnitude = - 1 \<rparr>"
definition huge :: Legacy_Size where "huge = \<lparr> magnitude = - 2 \<rparr>"
definition gargantuan :: Legacy_Size where "gargantuan = \<lparr> magnitude = - 4 \<rparr>"
definition colossal :: Legacy_Size where "colossal = \<lparr> magnitude = - 8 \<rparr>"

subsection \<open>Special abilities\<close>

definition darkvision :: Legacy_Special where
  "darkvision = Legacy_Special ''Darkvision'' []"

definition stonecunning :: Legacy_Special where
  "stonecunning = Legacy_Special ''Stonecunning''
     [(''search'', Legacy_Modifier [''+2 racial bonus to notice unusual stonework''] [])]"

definition stability :: Legacy_Special where
  "stability = Legacy_Special ''Stability''
     [(''STR'', Legacy_Modifier
        [''+4 on ability checks to resist being bull rushed or tripped when standing on the ground'']
        [])]"

definition low_light_vision :: Legacy_Special where
  "low_light_vision = Legacy_Special ''Low-Light Vision'' []"

subsection \<open>Races\<close>

definition human :: Legacy_Race where
  "human =
     \<lparr> race_name = ''Human'',
       race_size = medium,
       race_speed = 30,
       race_number_of_feats = Some 1,
       race_skill_points_per_level = Some 1,
       race_languages = [''Common''],
       race_bonus_languages = None,
       race_favored_class = None,
       race_features = [] \<rparr>"

definition dwarf :: Legacy_Race where
  "dwarf =
     \<lparr> race_name = ''Dwarf'',
       race_size = medium,
       race_speed = 20,
       race_number_of_feats = None,
       race_skill_points_per_level = None,
       race_languages = [''Common'', ''Dwarven''],
       race_bonus_languages = Some [''Giant'', ''Gnome'', ''Goblin'', ''Orc'', ''Terran'', ''Undercommon''],
       race_favored_class = Some ''Fighter'',
       race_features =
         [(''constitution'', FInt 2),
          (''charisma'', FInt (- 2)),
          (''darkvision'', FSpecial darkvision),
          (''stonecunning'', FSpecial stonecunning),
          (''weapon_familiarity'', FSpecial (Legacy_Special ''Weapon Familiarity'' [])),
          (''stability'', FSpecial stability),
          (''saving_throws'', FModifier (Legacy_Modifier
             [''+2 racial bonus on saving throws against poison.'',
              ''+2 racial bonus on saving throws against spells and spell-like effects.''] [])),
          (''attack_bonus'', FModifier (Legacy_Modifier
             [''+1 racial bonus on attack rolls against orcs and goblinoids.''] [])),
          (''armor_class'', FModifier (Legacy_Modifier
             [''+4 dodge bonus to Armor Class against monsters of the giant type.''] [])),
          (''appraise'', FModifier (Legacy_Modifier
             [''+2 racial bonus on Appraise checks that are related to stone or metal items.''] [])),
          (''craft'', FModifier (Legacy_Modifier
             [''+2 racial bonus on Craft checks that are related to stone or metal.''] []))] \<rparr>"

definition elf :: Legacy_Race where
  "elf =
     \<lparr> race_name = ''Elf'',
       race_size = medium,
       race_speed = 30,
       race_number_of_feats = None,
       race_skill_points_per_level = None,
       race_languages = [''Common'', ''Elven''],
       race_bonus_languages = Some [''Draconic'', ''Gnoll'', ''Gnome'', ''Goblin'', ''Orc'', ''Sylvan''],
       race_favored_class = Some ''Wizard'',
       race_features =
         [(''fortitude'', FModifier (Legacy_Modifier
             [''Immunity to magic sleep effects'',
              ''+2 racial saving throw bonus against enchantment spells or effects.''] [])),
          (''reflex'', FModifier (Legacy_Modifier
             [''Immunity to magic sleep effects'',
              ''+2 racial saving throw bonus against enchantment spells or effects.''] [])),
          (''will'', FModifier (Legacy_Modifier
             [''Immunity to magic sleep effects'',
              ''+2 racial saving throw bonus against enchantment spells or effects.''] [])),
          (''low_light_vision'', FSpecial low_light_vision),
          (''feats'', FStrs
             [''Martial Weapon (longsword)'',
              ''Martial Weapon (rapier)'',
              ''Martial Weapon (longbow)'',
              ''Martial Weapon (shortbow)'']),
          (''listen'', FModifier (Legacy_Modifier [] [(''racial'', 2)])),
          (''search'', FModifier (Legacy_Modifier [] [(''racial'', 2)])),
          (''spot'', FModifier (Legacy_Modifier [] [(''racial'', 2)]))] \<rparr>"

section \<open>Auxiliary facts about dictionaries, \<open>max\<close> and attribute assignment\<close>

lemma fold_update_map_of:
  "map_of (fold (\<lambda>(k, v) d. AList.update k v d) items d) k =
     (case map_of (rev items) k of Some v \<Rightarrow> Some v | None \<Rightarrow> map_of d k)"
proof (induction items arbitrary: d)
  case Nil
  show ?case by simp
next
  case (Cons kv items)
  obtain k' v' where kv: "kv = (k', v')" by (cases kv)
  show ?case
    by (simp add: kv Cons.IH update_conv map_add_def split: option.splits)
qed

lemma fold_update_keys:
  "fst ` set (fold (\<lambda>(k, v) d. AList.update k v d) items d) = fst ` set items \<union> fst ` set d"
proof (induction items arbitrary: d)
  case Nil
  show ?case by simp
next
  case (Cons kv items)
  obtain k' v' where kv: "kv = (k', v')" by (cases kv)
  show ?case
    by (simp add: kv Cons.IH dom_update)
qed

lemma fold_update_distinct:
  "distinct (map fst d) \<Longrightarrow> distinct (map fst (fold (\<lambda>(k, v) d. AList.update k v d) items d))"
proof (induction items arbitrary: d)
  case Nil
  then show ?case by simp
next
  case (Cons kv items)
  obtain k' v' where kv: "kv = (k', v')" by (cases kv)
  show ?case
    using Cons.prems by (simp add: kv Cons.IH distinct_update)
qed

lemma dict_of_keys: "set (dict_keys (dict_of items)) = fst ` set items"
  by (simp add: dict_keys_def dict_of_def fold_update_keys)

lemma dict_of_distinct: "distinct (dict_keys (dict_of items))"
  by (simp add: dict_keys_def dict_of_def fold_update_distinct)

lemma dict_of_len: "dict_len (dict_of items) = card (fst ` set items)"
proof -
  have "dict_len (dict_of items) = length (dict_keys (dict_of items))"
    by (simp add: dict_len_def dict_keys_def)
  also have "\<dots> = card (set (dict_keys (dict_of items)))"
    using dict_of_distinct [of items] by (simp add: distinct_card)
  finally show ?thesis by (simp add: dict_of_keys)
qed

lemma fold_max_Max: "fold max ys (y::int) = Max (set (y # ys))"
proof (induction ys arbitrary: y)
  case Nil
  show ?case by simp
next
  case (Cons z zs)
  have "fold max (z # zs) y = Max (set (max z y # zs))" by (simp add: Cons.IH)
  also have "\<dots> = Max (set (y # z # zs))"
    by (cases zs) (simp_all add: max.commute max.left_commute max.assoc)
  finally show ?case .
qed

lemma dict_of_map_of:
  "map_of (dict_of items) k = map_of (rev items) k"
  by (simp add: dict_of_def fold_update_map_of split: option.splits)

lemma py_max_empty: "py_max xs = Inl ValueError \<longleftrightarrow> xs = []"
  by (cases xs) (simp_all add: py_max_def)

lemma py_max_filter_empty:
  "py_max (filter P xs) = Inl ValueError \<longleftrightarrow> (\<forall>x\<in>set xs. \<not> P x)"
  by (simp add: py_max_empty filter_empty_conv)

lemma py_max_Max:
  "xs \<noteq> [] \<Longrightarrow> py_max xs = Inr (Max (set xs))"
  by (cases xs) (simp_all add: py_max_def fold_max_Max)

lemma fold_renamed_update_map_of:
  assumes "distinct (map fst xs)"
    and "\<And>k. k \<in> fst ` set xs \<Longrightarrow> (p k = t) = (k = s)"
  shows "map_of (fold (\<lambda>(k, v) d. AList.update (p k) v d) xs d0) t =
           (case map_of xs s of Some v \<Rightarrow> Some v | None \<Rightarrow> map_of d0 t)"
  using assms
proof (induction xs arbitrary: d0)
  case Nil
  show ?case by simp
next
  case (Cons kv xs)
  obtain k v where kv: "kv = (k, v)" by (cases kv)
  have dist: "distinct (map fst xs)" and knot: "k \<notin> fst ` set xs"
    using Cons.prems(1) by (simp_all add: kv)
  have ren: "\<And>k'. k' \<in> fst ` set xs \<Longrightarrow> (p k' = t) = (k' = s)"
    using Cons.prems(2) by simp
  have pk: "(p k = t) = (k = s)"
    using Cons.prems(2) [of k] by (simp add: kv)
  have IH: "map_of (fold (\<lambda>(k, v) d. AList.update (p k) v d) xs (AList.update (p k) v d0)) t =
              (case map_of xs s of Some v \<Rightarrow> Some v | None \<Rightarrow> map_of (AList.update (p k) v d0) t)"
    using Cons.IH [OF dist ren] by blast
  have step: "fold (\<lambda>(k, v) d. AList.update (p k) v d) (kv # xs) d0 =
                fold (\<lambda>(k, v) d. AList.update (p k) v d) xs (AList.update (p k) v d0)"
    by (simp add: kv)
  show ?case
  proof (cases "k = s")
    case True
    then have "map_of xs s = None"
      using knot by (simp add: map_of_eq_None_iff)
    then show ?thesis
      unfolding step IH using True pk by (simp add: kv update_conv)
  next
    case False
    then show ?thesis
      unfolding step IH using pk by (simp add: kv update_conv split: option.splits)
  qed
qed

lemma Race_setattr_update:
  "Race_setattr k v d =
     AList.update (if k = ''fortitude'' then ''_fortitude''
                   else if k = ''reflex'' then ''_reflex''
                   else if k = ''will'' then ''_will'' else k) v d"
  by (simp add: Race_setattr_def setattr_def)

lemma Race_init_map_of:
  assumes "distinct (map fst features)"
    and "\<And>k. k \<in> fst ` set features \<Longrightarrow>
           ((if k = ''fortitude'' then ''_fortitude''
             else if k = ''reflex'' then ''_reflex''
             else if k = ''will'' then ''_will'' else k) = t) = (k = s)"
  shows "map_of (Race_init nm sz sp ls bl fc features) t =
           (case map_of features s of
              Some v \<Rightarrow> Some v
            | None \<Rightarrow> map_of (Race_init nm sz sp ls bl fc []) t)"
proof -
  have "Race_init nm sz sp ls bl fc features =
          fold (\<lambda>(k, v) d. AList.update (if k = ''fortitude'' then ''_fortitude''
                   else if k = ''reflex'' then ''_reflex''
                   else if k = ''will'' then ''_will'' else k) v d) features
            (Race_init nm sz sp ls bl fc [])"
    by (simp add: Race_init_def Race_setattr_update [abs_def])
  then show ?thesis
    using fold_renamed_update_map_of [OF assms, of "Race_init nm sz sp ls bl fc []"] by simp
qed

lemma Race_init_Nil_map_of:
  "map_of (Race_init nm sz sp ls bl fc []) ''_fortitude'' = Some (VModifier (Modifier_init None None))"
  "map_of (Race_init nm sz sp ls bl fc []) ''_reflex'' = Some (VModifier (Modifier_init None None))"
  "map_of (Race_init nm sz sp ls bl fc []) ''_will'' = Some (VModifier (Modifier_init None None))"
  "map_of (Race_init nm sz sp ls bl fc []) ''saving_throws'' = None"
  "map_of (Race_init nm sz sp ls bl fc []) ''_save_bonus'' = None"
  by (cases bl; cases fc; simp add: Race_init_def Race_setattr_def setattr_def)+

lemma Race_init_save_bonus_slot:
  assumes "distinct (map fst features)"
  shows "map_of (Race_init nm sz sp ls bl fc features) ''_save_bonus'' =
           map_of features ''_save_bonus''"
proof -
  have ren: "\<And>k. k \<in> fst ` set features \<Longrightarrow>
         ((if k = ''fortitude'' then ''_fortitude''
           else if k = ''reflex'' then ''_reflex''
           else if k = ''will'' then ''_will'' else k) = ''_save_bonus'') = (k = ''_save_bonus'')"
    by auto
  show ?thesis
    using Race_init_map_of [OF assms ren, of nm sz sp ls bl fc]
    by (cases "map_of features ''_save_bonus''") (simp_all add: Race_init_Nil_map_of)
qed

text \<open>
  A keyword feature called \<open>_save_bonus\<close> shadows the method, and the three save properties
  of the constructed Race raise \<open>TypeError\<close>.
\<close>

lemma Race_saves_shadowed_method:
  assumes "distinct (map fst features)"
    and "map_of features ''_save_bonus'' = Some v"
  shows "fortitude (Race_init nm sz sp ls bl fc features) = Inl TypeError \<and>
         reflex (Race_init nm sz sp ls bl fc features) = Inl TypeError \<and>
         will (Race_init nm sz sp ls bl fc features) = Inl TypeError"
  by (simp add: fortitude_def reflex_def will_def call_save_bonus_def
      Race_init_save_bonus_slot [OF assms(1)] assms(2))

lemma Progression_init_getitem:
  "0 \<le> L \<Longrightarrow> L < int (length vs) \<Longrightarrow>
   Progression_getitem (Progression_init n vs) L =
     Inr (Modifier_init (Some (vs ! nat L)) (Some (ModifierType n)))"
  by (simp add: Progression_getitem_def Progression_init_def list_getitem_def)

section \<open>Verified properties\<close>

text \<open>
  C1. For every core-model Size built from a name and an integer scale value \<open>s\<close>, the
  derived modifiers have numeric values \<open>-s\<close> (attack), \<open>-s\<close> (armor class), \<open>4 * s\<close>
  (grapple) and \<open>-4 * s\<close> (hide); \<open>Size("Large", -1)\<close> has attack +1, armor class +1,
  grapple -4 and hide +4.
\<close>

theorem Size_derived_modifiers_linear:
  "to_int (attack (Size_init n s)) = - s \<and>
   to_int (armor_class (Size_init n s)) = - s \<and>
   to_int (grapple (Size_init n s)) = 4 * s \<and>
   to_int (hide (Size_init n s)) = - 4 * s \<and>
   to_int (attack (Size_init ''Large'' (- 1))) = 1 \<and>
   to_int (armor_class (Size_init ''Large'' (- 1))) = 1 \<and>
   to_int (grapple (Size_init ''Large'' (- 1))) = - 4 \<and>
   to_int (hide (Size_init ''Large'' (- 1))) = 4"
  by (simp add: attack_def armor_class_def grapple_def hide_def Size_init_def
      Modifier_init_def Modifier_neg_def Modifier_rmul_def)

text \<open>
  C2. For every integer score, the modifier of \<open>AbilityScore(score)\<close> is tagged with the
  ModifierType "ability" and its numeric value is the floor of \<open>(score - 10) / 2\<close>; scores
  10, 18 and 7 give 0, 4 and -2; an AbilityScore built without a score has score 10.
\<close>

theorem AbilityScore_modifier_floor:
  "modifier_type (modifier (AbilityScore_init (Some s))) = Some (ModifierType ''ability'') \<and>
   to_int (modifier (AbilityScore_init (Some s))) = \<lfloor>(real_of_int s - 10) / 2\<rfloor> \<and>
   to_int (modifier (AbilityScore_init (Some 10))) = 0 \<and>
   to_int (modifier (AbilityScore_init (Some 18))) = 4 \<and>
   to_int (modifier (AbilityScore_init (Some 7))) = - 2 \<and>
   score (AbilityScore_init None) = 10"
proof -
  have fl: "\<lfloor>(real_of_int s - 10) / 2\<rfloor> = (s - 10) div 2"
    using floor_divide_of_int_eq [of "s - 10" 2, where ?'a = real] by simp
  show ?thesis
    unfolding modifier_def AbilityScore_init_def Modifier_init_def AbilityScore_modifier_type_def
    using fl by simp
qed

text \<open>
  C7. An Ability constructed with an explicitly supplied AbilityType should report that
  type, and one constructed without should report the default type 'Natural'. Evaluated
  at \<open>Ability('Stonecunning', AbilityType('Extraordinary', 'Ex'), 'Notice unusual stonework')\<close>
  the constructor stores the default type 'Natural' instead of the supplied one, and at
  \<open>Ability('Darkvision')\<close> it stores an AbilityType with the empty name.
\<close>

theorem Ability_init_discards_supplied_type:
  "ability_type (Ability_init ''Stonecunning'' (Some (AbilityType ''Extraordinary'' (Some ''Ex'')))
       (Some ''Notice unusual stonework'') [])
     = Inr (VAbilityType (AbilityType ''Natural'' None)) \<and>
   ability_type (Ability_init ''Stonecunning'' (Some (AbilityType ''Extraordinary'' (Some ''Ex'')))
       (Some ''Notice unusual stonework'') [])
     \<noteq> Inr (VAbilityType (AbilityType ''Extraordinary'' (Some ''Ex''))) \<and>
   ability_type (Ability_init ''Darkvision'' None None [])
     = Inr (VAbilityType (AbilityType [] None)) \<and>
   ability_type (Ability_init ''Darkvision'' None None [])
     \<noteq> Inr (VAbilityType default_ability_type)"
  by (simp add: ability_type_def Ability_init_def getattr_def default_ability_type_def)

text \<open>
  C3. For every ClassFeature with abilities declared at a non-empty set of levels, indexing
  it at a level at or above the lowest declared level returns the Ability registered at
  the greatest declared level not exceeding the query, and indexing it at a level strictly
  below the lowest declared level fails: \<open>max\<close> finds no candidate level and raises
  (\<open>ValueError\<close>, the failure the spec calls NotFound).
\<close>

theorem ClassFeature_getitem_greatest_level:
  "prog \<noteq> [] \<Longrightarrow>
   (Min (ordinal ` fst ` set prog) \<le> q \<longrightarrow>
      (\<exists>k a. ClassFeature_getitem (ClassFeature_init ordinal nm d prog) q = Inr a \<and>
             (k, a) \<in> set prog \<and> ordinal k \<le> q \<and>
             (\<forall>k'\<in>fst ` set prog. ordinal k' \<le> q \<longrightarrow> ordinal k' \<le> ordinal k))) \<and>
   (q < Min (ordinal ` fst ` set prog) \<longrightarrow>
      ClassFeature_getitem (ClassFeature_init ordinal nm d prog) q = Inl ValueError)"
proof -
  assume ne: "prog \<noteq> []"
  define items where "items = map (\<lambda>(level, ability). (ordinal level, ability)) prog"
  define cf where "cf = ClassFeature_init ordinal nm d prog"
  define K where "K = ordinal ` fst ` set prog"
  have prog_cf: "progression cf = dict_of items"
    by (simp add: cf_def ClassFeature_init_def items_def)
  have keys: "set (dict_keys (progression cf)) = K"
    by (simp add: prog_cf dict_of_keys items_def K_def image_image case_prod_beta)
  have finK: "finite K" and neK: "K \<noteq> {}"
    using ne by (simp_all add: K_def)
  let ?cands = "filter (\<lambda>lvl. lvl \<le> q) (dict_keys (progression cf))"
  have below: "ClassFeature_getitem cf q = Inl ValueError" if lt: "q < Min K"
  proof -
    have "\<forall>x\<in>set (dict_keys (progression cf)). \<not> x \<le> q"
      using lt finK keys by (auto simp add: not_le dest: Min_le [OF finK] intro: less_le_trans)
    then have "py_max ?cands = Inl ValueError"
      by (simp only: py_max_filter_empty)
    then show ?thesis by (simp add: ClassFeature_getitem_def)
  qed
  have above: "\<exists>k a. ClassFeature_getitem cf q = Inr a \<and> (k, a) \<in> set prog \<and> ordinal k \<le> q \<and>
                 (\<forall>k'\<in>fst ` set prog. ordinal k' \<le> q \<longrightarrow> ordinal k' \<le> ordinal k)"
    if ge: "Min K \<le> q"
  proof -
    have "Min K \<in> K" using finK neK by (rule Min_in)
    then have cne: "?cands \<noteq> []"
      using ge keys by (auto simp add: filter_empty_conv)
    define m where "m = Max (set ?cands)"
    have pm: "py_max ?cands = Inr m"
      using cne by (simp add: py_max_Max m_def)
    have sne: "set ?cands \<noteq> {}"
      using cne by (simp only: set_empty not_False_eq_True)
    have "m \<in> set ?cands"
      unfolding m_def using sne by (intro Max_in) (rule finite_set)
    then have mK: "m \<in> K" and mq: "m \<le> q"
      using keys by auto
    have mmax: "l \<le> m" if "l \<in> K" "l \<le> q" for l
    proof -
      have "l \<in> set ?cands" using that keys by auto
      then show ?thesis unfolding m_def by (intro Max_ge) simp_all
    qed
    have "m \<in> fst ` set (rev items)"
      using mK by (simp add: K_def items_def image_image case_prod_beta)
    then obtain a where a: "map_of (rev items) m = Some a"
      by (metis domD dom_map_of_conv_image_fst)
    then have "(m, a) \<in> set items"
      using map_of_SomeD by fastforce
    then obtain k where k: "(k, a) \<in> set prog" "ordinal k = m"
      by (auto simp add: items_def)
    have "ClassFeature_getitem cf q = Inr a"
      unfolding ClassFeature_getitem_def pm
      by (simp add: dict_getitem_def prog_cf dict_of_map_of a)
    moreover have "\<forall>k'\<in>fst ` set prog. ordinal k' \<le> q \<longrightarrow> ordinal k' \<le> ordinal k"
      using mmax k(2) by (auto simp add: K_def)
    ultimately show ?thesis using k mq by blast
  qed
  show ?thesis using above below by (simp add: cf_def K_def)
qed

text \<open>
  The example of the spec: abilities declared at levels 1 and 5; level 3 yields the
  level-1 Ability and level 0 fails.
\<close>

theorem ClassFeature_getitem_greatest_level_witness:
  "[(''1st'', Ability_init ''Sneak Attack +1d6'' None None []),
    (''5th'', Ability_init ''Sneak Attack +3d6'' None None [])] \<noteq> [] \<and>
   ClassFeature_getitem
     (ClassFeature_init (\<lambda>s. if s = ''1st'' then 1 else 5) ''Sneak Attack'' None
        [(''1st'', Ability_init ''Sneak Attack +1d6'' None None []),
         (''5th'', Ability_init ''Sneak Attack +3d6'' None None [])]) 3
     = Inr (Ability_init ''Sneak Attack +1d6'' None None []) \<and>
   ClassFeature_getitem
     (ClassFeature_init (\<lambda>s. if s = ''1st'' then 1 else 5) ''Sneak Attack'' None
        [(''1st'', Ability_init ''Sneak Attack +1d6'' None None []),
         (''5th'', Ability_init ''Sneak Attack +3d6'' None None [])]) 0
     = Inl ValueError"
  using ClassFeature_getitem_greatest_level
    [of "[(''1st'', Ability_init ''Sneak Attack +1d6'' None None []),
          (''5th'', Ability_init ''Sneak Attack +3d6'' None None [])]"
        "\<lambda>s. if s = ''1st'' then 1 else 5" 3 "''Sneak Attack''" None]
    ClassFeature_getitem_greatest_level
    [of "[(''1st'', Ability_init ''Sneak Attack +1d6'' None None []),
          (''5th'', Ability_init ''Sneak Attack +3d6'' None None [])]"
        "\<lambda>s. if s = ''1st'' then 1 else 5" 0 "''Sneak Attack''" None]
  by (simp add: Ability_init_def ClassFeature_getitem_def ClassFeature_init_def dict_of_def
      dict_keys_def py_max_def dict_getitem_def)

text \<open>
  C6. For every Character constructed from a race, a classes mapping and a feat list, the
  level property equals the number of distinct classes held, not the sum of the levels
  held; with classes \<open>{Fighter: 3, Wizard: 2}\<close> the level is 2.
\<close>

theorem Character_level_counts_distinct_classes:
  "level (Character_init r cs fs) = int (card (fst ` set cs)) \<and>
   level (Character_init r [(0, 3), (1, 2)] fs) = 2 \<and>
   level (Character_init r [(0, 3), (1, 2)] fs) \<noteq> sum_list (map snd [(0, 3), (1, 2)])"
proof -
  have gen: "level (Character_init r' cs' fs') = int (card (fst ` set cs'))" for r' cs' fs'
    by (simp add: level_def Character_init_def Counter_def dict_of_len
        dict_of_keys [unfolded dict_keys_def, simplified])
  show ?thesis by (simp add: gen)
qed

text \<open>
  C4. For every Race constructed with pairwise distinct keyword features, none of them
  written directly to the private names \<open>_fortitude\<close>, \<open>_reflex\<close>, \<open>_will\<close> or shadowing the
  method \<open>_save_bonus\<close>, and with the \<open>saving_throws\<close>, \<open>fortitude\<close>, \<open>reflex\<close> and \<open>will\<close>
  features Modifiers where supplied: each of the fortitude, reflex and will properties is
  the sum of the race-wide saving_throws Modifier and the save-specific Modifier, an
  operand that was not supplied counting as the no-argument Modifier; a Race given none of
  them has the no-argument Modifier for all three saves.
\<close>

theorem Race_saves_sum_generic_and_specific:
  assumes "distinct (map fst features)"
    and "''_fortitude'' \<notin> fst ` set features"
    and "''_reflex'' \<notin> fst ` set features"
    and "''_will'' \<notin> fst ` set features"
    and "''_save_bonus'' \<notin> fst ` set features"
    and "map_of features ''saving_throws'' = map_option VModifier generic"
    and "map_of features ''fortitude'' = map_option VModifier f"
    and "map_of features ''reflex'' = map_option VModifier r"
    and "map_of features ''will'' = map_option VModifier w"
  shows "fortitude (Race_init nm sz sp ls bl fc features) =
           Inr (VModifier (Modifier_add
             (case generic of None \<Rightarrow> Modifier_init None None | Some m \<Rightarrow> m)
             (case f of None \<Rightarrow> Modifier_init None None | Some m \<Rightarrow> m))) \<and>
         reflex (Race_init nm sz sp ls bl fc features) =
           Inr (VModifier (Modifier_add
             (case generic of None \<Rightarrow> Modifier_init None None | Some m \<Rightarrow> m)
             (case r of None \<Rightarrow> Modifier_init None None | Some m \<Rightarrow> m))) \<and>
         will (Race_init nm sz sp ls bl fc features) =
           Inr (VModifier (Modifier_add
             (case generic of None \<Rightarrow> Modifier_init None None | Some m \<Rightarrow> m)
             (case w of None \<Rightarrow> Modifier_init None None | Some m \<Rightarrow> m))) \<and>
         (generic = None \<and> f = None \<and> r = None \<and> w = None \<longrightarrow>
            fortitude (Race_init nm sz sp ls bl fc features) = Inr (VModifier (Modifier_init None None)) \<and>
            reflex (Race_init nm sz sp ls bl fc features) = Inr (VModifier (Modifier_init None None)) \<and>
            will (Race_init nm sz sp ls bl fc features) = Inr (VModifier (Modifier_init None None)))"
proof -
  let ?R = "Race_init nm sz sp ls bl fc features"
  have g: "map_of ?R ''saving_throws'' = map_option VModifier generic"
  proof -
    have ren: "\<And>k. k \<in> fst ` set features \<Longrightarrow>
           ((if k = ''fortitude'' then ''_fortitude''
             else if k = ''reflex'' then ''_reflex''
             else if k = ''will'' then ''_will'' else k) = ''saving_throws'') = (k = ''saving_throws'')"
      by auto
    show ?thesis
      using Race_init_map_of [OF assms(1) ren, of nm sz sp ls bl fc]
      by (cases generic) (simp_all add: Race_init_Nil_map_of assms(6))
  qed
  have sf: "map_of ?R ''_fortitude'' =
              Some (VModifier (case f of None \<Rightarrow> Modifier_init None None | Some m \<Rightarrow> m))"
  proof -
    have ren: "((if k = ''fortitude'' then ''_fortitude''
             else if k = ''reflex'' then ''_reflex''
             else if k = ''will'' then ''_will'' else k) = ''_fortitude'') = (k = ''fortitude'')"
      if "k \<in> fst ` set features" for k
    proof -
      have "k \<noteq> ''_fortitude''" using that assms(2) by blast
      then show ?thesis by simp
    qed
    show ?thesis
      using Race_init_map_of [OF assms(1) ren, of nm sz sp ls bl fc]
      by (cases f) (simp_all add: Race_init_Nil_map_of assms(7))
  qed
  have sr: "map_of ?R ''_reflex'' =
              Some (VModifier (case r of None \<Rightarrow> Modifier_init None None | Some m \<Rightarrow> m))"
  proof -
    have ren: "((if k = ''fortitude'' then ''_fortitude''
             else if k = ''reflex'' then ''_reflex''
             else if k = ''will'' then ''_will'' else k) = ''_reflex'') = (k = ''reflex'')"
      if "k \<in> fst ` set features" for k
    proof -
      have "k \<noteq> ''_reflex''" using that assms(3) by blast
      then show ?thesis by simp
    qed
    show ?thesis
      using Race_init_map_of [OF assms(1) ren, of nm sz sp ls bl fc]
      by (cases r) (simp_all add: Race_init_Nil_map_of assms(8))
  qed
  have sw: "map_of ?R ''_will'' =
              Some (VModifier (case w of None \<Rightarrow> Modifier_init None None | Some m \<Rightarrow> m))"
  proof -
    have ren: "((if k = ''fortitude'' then ''_fortitude''
             else if k = ''reflex'' then ''_reflex''
             else if k = ''will'' then ''_will'' else k) = ''_will'') = (k = ''will'')"
      if "k \<in> fst ` set features" for k
    proof -
      have "k \<noteq> ''_will''" using that assms(4) by blast
      then show ?thesis by simp
    qed
    show ?thesis
      using Race_init_map_of [OF assms(1) ren, of nm sz sp ls bl fc]
      by (cases w) (simp_all add: Race_init_Nil_map_of assms(9))
  qed
  have nosb: "map_of ?R ''_save_bonus'' = None"
    using assms(5) by (simp add: Race_init_save_bonus_slot [OF assms(1)] map_of_eq_None_iff)
  have gen: "or_zero_Modifier (Race_getattr ?R ''saving_throws'') =
               Inr (VModifier (case generic of None \<Rightarrow> Modifier_init None None | Some m \<Rightarrow> m))"
    by (cases generic)
       (simp_all add: or_zero_Modifier_def Race_getattr_def g getattr_def Race_class_attributes_def)
  have F: "fortitude ?R = Inr (VModifier (Modifier_add
             (case generic of None \<Rightarrow> Modifier_init None None | Some m \<Rightarrow> m)
             (case f of None \<Rightarrow> Modifier_init None None | Some m \<Rightarrow> m)))"
  proof -
    have "or_zero_Modifier (Race_getattr ?R ''_fortitude'') = Inr (the (map_of ?R ''_fortitude''))"
      by (simp add: or_zero_Modifier_def Race_getattr_def sf)
    then show ?thesis
      unfolding fortitude_def call_save_bonus_def nosb option.case save_bonus_def gen by (simp add: sf)
  qed
  have R: "reflex ?R = Inr (VModifier (Modifier_add
             (case generic of None \<Rightarrow> Modifier_init None None | Some m \<Rightarrow> m)
             (case r of None \<Rightarrow> Modifier_init None None | Some m \<Rightarrow> m)))"
  proof -
    have "or_zero_Modifier (Race_getattr ?R ''_reflex'') = Inr (the (map_of ?R ''_reflex''))"
      by (simp add: or_zero_Modifier_def Race_getattr_def sr)
    then show ?thesis
      unfolding reflex_def call_save_bonus_def nosb option.case save_bonus_def gen by (simp add: sr)
  qed
  have W: "will ?R = Inr (VModifier (Modifier_add
             (case generic of None \<Rightarrow> Modifier_init None None | Some m \<Rightarrow> m)
             (case w of None \<Rightarrow> Modifier_init None None | Some m \<Rightarrow> m)))"
  proof -
    have "or_zero_Modifier (Race_getattr ?R ''_will'') = Inr (the (map_of ?R ''_will''))"
      by (simp add: or_zero_Modifier_def Race_getattr_def sw)
    then show ?thesis
      unfolding will_def call_save_bonus_def nosb option.case save_bonus_def gen by (simp add: sw)
  qed
  have Z: "Modifier_add (Modifier_init None None) (Modifier_init None None) = Modifier_init None None"
    by (simp add: Modifier_add_def Modifier_init_def)
  show ?thesis
    using F R W Z by simp
qed

text \<open>
  A Race with a +2 \<open>saving_throws\<close> Modifier and a +1 \<open>fortitude\<close> Modifier has fortitude
  +3 and reflex +2; a Race without features has the zero Modifier.
\<close>

theorem Race_saves_sum_generic_and_specific_witness:
  "distinct (map fst
     [(''saving_throws'', VModifier (Modifier 2 (Some (ModifierType ''racial'')))),
      (''fortitude'', VModifier (Modifier 1 (Some (ModifierType ''racial''))))]) \<and>
   fortitude (Race_init ''Halfling'' (Size_init ''Small'' 1) 20 [''Common'', ''Halfling''] None None
     [(''saving_throws'', VModifier (Modifier 2 (Some (ModifierType ''racial'')))),
      (''fortitude'', VModifier (Modifier 1 (Some (ModifierType ''racial''))))])
     = Inr (VModifier (Modifier 3 (Some (ModifierType ''racial'')))) \<and>
   reflex (Race_init ''Halfling'' (Size_init ''Small'' 1) 20 [''Common'', ''Halfling''] None None
     [(''saving_throws'', VModifier (Modifier 2 (Some (ModifierType ''racial'')))),
      (''fortitude'', VModifier (Modifier 1 (Some (ModifierType ''racial''))))])
     = Inr (VModifier (Modifier 2 (Some (ModifierType ''racial'')))) \<and>
   will (Race_init ''Human'' (Size_init ''Medium'' 0) 30 [''Common''] None None [])
     = Inr (VModifier (Modifier_init None None))"
  using Race_saves_sum_generic_and_specific
    [where features = "[(''saving_throws'', VModifier (Modifier 2 (Some (ModifierType ''racial'')))),
                        (''fortitude'', VModifier (Modifier 1 (Some (ModifierType ''racial''))))]"
       and generic = "Some (Modifier 2 (Some (ModifierType ''racial'')))"
       and f = "Some (Modifier 1 (Some (ModifierType ''racial'')))"
       and r = None and w = None
       and nm = "''Halfling''" and sz = "Size_init ''Small'' 1" and sp = 20
       and ls = "[''Common'', ''Halfling'']" and bl = None and fc = None]
    Race_saves_sum_generic_and_specific
    [where features = "[]" and generic = None and f = None and r = None and w = None
       and nm = "''Human''" and sz = "Size_init ''Medium'' 0" and sp = 30
       and ls = "[''Common'']" and bl = None and fc = None]
  by (simp add: Modifier_add_def Modifier_init_def)

text \<open>
  C5 (as amended). \<open>Progression.__getitem__\<close> indexes the underlying Python list, whose
  first element is at index 0, and ClassLevel passes its level unchanged. For every
  ClassLevel holding class \<open>c\<close> at level \<open>L\<close> with \<open>0 \<le> L\<close> below the number of values of each
  of \<open>c\<close>'s Progressions, base_attack_bonus, fort_save, ref_save and will_save each equal
  the Modifier at 0-based position \<open>L\<close> of the corresponding Progression: the
  \<open>(L + 1)\<close>-th value it was constructed from, tagged with the Progression's name.
\<close>

theorem ClassLevel_bonuses_index_progressions:
  assumes "class_base_attack_bonus c = Progression_init n1 bab"
    and "class_fort_save c = Progression_init n2 fort"
    and "class_ref_save c = Progression_init n3 ref"
    and "class_will_save c = Progression_init n4 wil"
    and "0 \<le> L"
    and "L < int (length bab)" and "L < int (length fort)"
    and "L < int (length ref)" and "L < int (length wil)"
  shows "base_attack_bonus (ClassLevel_init c L) =
           Inr (Modifier_init (Some (bab ! nat L)) (Some (ModifierType n1))) \<and>
         fort_save (ClassLevel_init c L) =
           Inr (Modifier_init (Some (fort ! nat L)) (Some (ModifierType n2))) \<and>
         ref_save (ClassLevel_init c L) =
           Inr (Modifier_init (Some (ref ! nat L)) (Some (ModifierType n3))) \<and>
         will_save (ClassLevel_init c L) =
           Inr (Modifier_init (Some (wil ! nat L)) (Some (ModifierType n4)))"
  using assms
  by (simp add: base_attack_bonus_def fort_save_def ref_save_def will_save_def
      ClassLevel_init_def Progression_init_getitem)

text \<open>
  A class whose Progressions are built from three values each, held at level 1: the base
  attack bonus is the second value.
\<close>

theorem ClassLevel_bonuses_index_progressions_witness:
  "(0::int) \<le> 1 \<and> (1::int) < int (length [1, 2, 3 :: int]) \<and>
   base_attack_bonus
     (ClassLevel_init
        \<lparr> alignment_restriction = None, hit_die = Die 10, class_skills = [''Climb''],
          skill_points_per_level = 2,
          class_base_attack_bonus = Progression_init ''base_attack_bonus'' [1, 2, 3],
          class_fort_save = Progression_init ''fortitude'' [2, 3, 3],
          class_ref_save = Progression_init ''reflex'' [0, 0, 1],
          class_will_save = Progression_init ''will'' [0, 0, 1],
          class_features = [] \<rparr> 1)
     = Inr (Modifier 2 (Some (ModifierType ''base_attack_bonus''))) \<and>
   fort_save
     (ClassLevel_init
        \<lparr> alignment_restriction = None, hit_die = Die 10, class_skills = [''Climb''],
          skill_points_per_level = 2,
          class_base_attack_bonus = Progression_init ''base_attack_bonus'' [1, 2, 3],
          class_fort_save = Progression_init ''fortitude'' [2, 3, 3],
          class_ref_save = Progression_init ''reflex'' [0, 0, 1],
          class_will_save = Progression_init ''will'' [0, 0, 1],
          class_features = [] \<rparr> 1)
     = Inr (Modifier 3 (Some (ModifierType ''fortitude'')))"
  using ClassLevel_bonuses_index_progressions
    [where c = "\<lparr> alignment_restriction = None, hit_die = Die 10, class_skills = [''Climb''],
          skill_points_per_level = 2,
          class_base_attack_bonus = Progression_init ''base_attack_bonus'' [1, 2, 3],
          class_fort_save = Progression_init ''fortitude'' [2, 3, 3],
          class_ref_save = Progression_init ''reflex'' [0, 0, 1],
          class_will_save = Progression_init ''will'' [0, 0, 1],
          class_features = [] \<rparr>"
       and ?n1.0 = "''base_attack_bonus''" and bab = "[1, 2, 3]"
       and ?n2.0 = "''fortitude''" and fort = "[2, 3, 3]"
       and ?n3.0 = "''reflex''" and ref = "[0, 0, 1]"
       and ?n4.0 = "''will''" and wil = "[0, 0, 1]" and L = 1]
  by (simp add: Modifier_init_def)

text \<open>
  The reading of C5 in which a Progression's first value belongs to level 1 fails: with
  base attack values 1, 2, 3 the ClassLevel at level 1 has base attack bonus 2, not 1, and
  the ClassLevel at level 3 raises \<open>IndexError\<close>.
\<close>

theorem ClassLevel_first_value_at_level_one_counterexample:
  "base_attack_bonus
     (ClassLevel_init
        \<lparr> alignment_restriction = None, hit_die = Die 10, class_skills = [''Climb''],
          skill_points_per_level = 2,
          class_base_attack_bonus = Progression_init ''base_attack_bonus'' [1, 2, 3],
          class_fort_save = Progression_init ''fortitude'' [2, 3, 3],
          class_ref_save = Progression_init ''reflex'' [0, 0, 1],
          class_will_save = Progression_init ''will'' [0, 0, 1],
          class_features = [] \<rparr> 1)
     \<noteq> Inr (Modifier_init (Some 1) (Some (ModifierType ''base_attack_bonus''))) \<and>
   base_attack_bonus
     (ClassLevel_init
        \<lparr> alignment_restriction = None, hit_die = Die 10, class_skills = [''Climb''],
          skill_points_per_level = 2,
          class_base_attack_bonus = Progression_init ''base_attack_bonus'' [1, 2, 3],
          class_fort_save = Progression_init ''fortitude'' [2, 3, 3],
          class_ref_save = Progression_init ''reflex'' [0, 0, 1],
          class_will_save = Progression_init ''will'' [0, 0, 1],
          class_features = [] \<rparr> 1)
     = Inr (Modifier_init (Some 2) (Some (ModifierType ''base_attack_bonus''))) \<and>
   base_attack_bonus
     (ClassLevel_init
        \<lparr> alignment_restriction = None, hit_die = Die 10, class_skills = [''Climb''],
          skill_points_per_level = 2,
          class_base_attack_bonus = Progression_init ''base_attack_bonus'' [1, 2, 3],
          class_fort_save = Progression_init ''fortitude'' [2, 3, 3],
          class_ref_save = Progression_init ''reflex'' [0, 0, 1],
          class_will_save = Progression_init ''will'' [0, 0, 1],
          class_features = [] \<rparr> 3)
     = Inl IndexError"
  by (simp add: base_attack_bonus_def ClassLevel_init_def Progression_getitem_def
      Progression_init_def list_getitem_def Modifier_init_def)

text \<open>
  C8. The legacy catalog defines the sizes Fine, Diminutive, Tiny, Small, Medium, Large,
  Huge, Gargantuan, Colossal with magnitudes +8, +4, +2, +1, 0, -1, -2, -4, -8; fine has
  magnitude 8, colossal has magnitude -8, and the magnitudes strictly decrease along the
  sequence.
\<close>

theorem catalog_sizes:
  "map magnitude [fine, diminutive, tiny, small, medium, large, huge, gargantuan, colossal]
     = [8, 4, 2, 1, 0, - 1, - 2, - 4, - 8] \<and>
   magnitude fine = 8 \<and> magnitude colossal = - 8 \<and>
   sorted_wrt (\<lambda>a b. b < a)
     (map magnitude [fine, diminutive, tiny, small, medium, large, huge, gargantuan, colossal])"
  by (simp add: fine_def diminutive_def tiny_def small_def medium_def large_def huge_def
      gargantuan_def colossal_def)

text \<open>
  C9. The legacy catalog's dwarf is defined with the literal values the spec lists: size
  medium, speed 20, constitution +2, charisma -2, the Darkvision, Stonecunning, Weapon
  Familiarity and Stability specials, the saving_throws Modifier with the two +2
  descriptive bonuses, the +1 attack_bonus, the +4 armor_class, the +2 appraise and craft
  Modifiers, languages Common and Dwarven, the six bonus languages and favored class
  Fighter; it has no other feature.
\<close>

theorem catalog_dwarf:
  "race_name dwarf = ''Dwarf'' \<and>
   race_size dwarf = medium \<and> magnitude (race_size dwarf) = 0 \<and>
   race_speed dwarf = 20 \<and>
   map_of (race_features dwarf) ''constitution'' = Some (FInt 2) \<and>
   map_of (race_features dwarf) ''charisma'' = Some (FInt (- 2)) \<and>
   map_of (race_features dwarf) ''darkvision'' = Some (FSpecial (Legacy_Special ''Darkvision'' [])) \<and>
   map_of (race_features dwarf) ''stonecunning'' = Some (FSpecial stonecunning) \<and>
   special_name stonecunning = ''Stonecunning'' \<and>
   map_of (race_features dwarf) ''weapon_familiarity''
     = Some (FSpecial (Legacy_Special ''Weapon Familiarity'' [])) \<and>
   map_of (race_features dwarf) ''stability'' = Some (FSpecial stability) \<and>
   special_name stability = ''Stability'' \<and>
   map_of (race_features dwarf) ''saving_throws''
     = Some (FModifier (Legacy_Modifier
         [''+2 racial bonus on saving throws against poison.'',
          ''+2 racial bonus on saving throws against spells and spell-like effects.''] [])) \<and>
   map_of (race_features dwarf) ''attack_bonus''
     = Some (FModifier (Legacy_Modifier
         [''+1 racial bonus on attack rolls against orcs and goblinoids.''] [])) \<and>
   map_of (race_features dwarf) ''armor_class''
     = Some (FModifier (Legacy_Modifier
         [''+4 dodge bonus to Armor Class against monsters of the giant type.''] [])) \<and>
   map_of (race_features dwarf) ''appraise''
     = Some (FModifier (Legacy_Modifier
         [''+2 racial bonus on Appraise checks that are related to stone or metal items.''] [])) \<and>
   map_of (race_features dwarf) ''craft''
     = Some (FModifier (Legacy_Modifier
         [''+2 racial bonus on Craft checks that are related to stone or metal.''] [])) \<and>
   race_languages dwarf = [''Common'', ''Dwarven''] \<and>
   race_bonus_languages dwarf
     = Some [''Giant'', ''Gnome'', ''Goblin'', ''Orc'', ''Terran'', ''Undercommon''] \<and>
   race_favored_class dwarf = Some ''Fighter'' \<and>
   map fst (race_features dwarf)
     = [''constitution'', ''charisma'', ''darkvision'', ''stonecunning'', ''weapon_familiarity'',
        ''stability'', ''saving_throws'', ''attack_bonus'', ''armor_class'', ''appraise'', ''craft'']"
  by (simp add: dwarf_def medium_def darkvision_def stonecunning_def stability_def)

text \<open>
  C10. The level of a Character is the number of keys of the stored Counter, whatever the
  counts: a class mapped to 0 levels held is a key and is counted, so
  \<open>Character(race, {Fighter: 0}, [])\<close> has level 1.
\<close>

theorem Character_level_counts_zero_entries:
  "level (Character_init r cs fs) = int (length (dict_keys (classes (Character_init r cs fs)))) \<and>
   ((c, 0) \<in> set cs \<longrightarrow>
      c \<in> set (dict_keys (classes (Character_init r cs fs))) \<and> 1 \<le> level (Character_init r cs fs)) \<and>
   level (Character_init r [(c, 0)] fs) = 1"
proof -
  have keys: "set (dict_keys (classes (Character_init r' cs' fs'))) = fst ` set cs'" for r' cs' fs'
    by (simp add: Character_init_def Counter_def dict_of_keys
        dict_of_keys [unfolded dict_keys_def, simplified])
  have len: "level (Character_init r' cs' fs') = int (length (dict_keys (classes (Character_init r' cs' fs'))))"
    for r' cs' fs'
    by (simp add: level_def dict_len_def dict_keys_def)
  have mem: "c \<in> set (dict_keys (classes (Character_init r cs fs))) \<and> 1 \<le> level (Character_init r cs fs)"
    if "(c, 0) \<in> set cs"
  proof -
    have c: "c \<in> set (dict_keys (classes (Character_init r cs fs)))"
      using that by (simp add: keys) force
    then have "dict_keys (classes (Character_init r cs fs)) \<noteq> []" by auto
    then have "1 \<le> level (Character_init r cs fs)"
      by (simp add: len) (simp add: Suc_le_eq)
    with c show ?thesis by simp
  qed
  have one: "level (Character_init r [(c, 0)] fs) = 1"
    by (simp add: level_def dict_len_def Character_init_def Counter_def dict_of_def)
  show ?thesis using len mem one by blast
qed

text \<open>
  A Character holding one class at 0 levels and another at 4 has level 2.
\<close>

theorem Character_level_counts_zero_entries_witness:
  "((0::nat), (0::int)) \<in> set [(0, 0), (1, 4)] \<and>
   0 \<in> set (dict_keys (classes (Character_init [] [(0, 0), (1, 4)] []))) \<and>
   level (Character_init [] [(0, 0), (1, 4)] []) = 2"
  using Character_level_counts_zero_entries [of "[]" "[(0, 0), (1, 4)]" "[]" 0]
  by (simp add: level_def dict_len_def dict_keys_def Character_init_def Counter_def dict_of_def)

end
